theory Spec2Isabelle
  imports Complex_Main
begin

section \<open>The availability tool of \<open>mcp-server.py\<close>\<close>

text \<open>
  The repository is one Python module. Its only operation is the coroutine
  \<open>check_seat_availability\<close>, which builds a dictionary literal from its five string
  arguments, a table of constants and the wall clock, and returns it; the MCP handler
  \<open>handle_call_tool\<close> looks the five arguments up in the request dictionary, awaits the
  coroutine and serialises the dictionary. There is no ledger, no booking and no
  cancellation operation in the module.

  Python \<open>int\<close> is \<open>int\<close>, \<open>str\<close> is \<open>string\<close>. The \<open>float\<close> literals (1250.0, 1275.0,
  1300.0, 1200.0) are exactly representable and no arithmetic is done on them; they are
  \<open>real\<close> numerals. A dictionary literal is an association list in the order the source
  writes its keys; the nested dictionaries with a fixed set of keys are records.
\<close>

subsection \<open>The clock: \<open>datetime.now().strftime("%Y-%m-%d %H:%M:%S")\<close>\<close>

record datetime =
  year :: nat
  month :: nat
  day :: nat
  hour :: nat
  minute :: nat
  second :: nat
  microsecond :: nat

definition digit_char :: "nat \<Rightarrow> char" where
  "digit_char d = char_of (48 + d)"

fun decimal :: "nat \<Rightarrow> string" where
  "decimal n = (if n < 10 then [digit_char n] else decimal (n div 10) @ [digit_char (n mod 10)])"

text \<open>
  Zero padding to a width, as \<open>%Y\<close> (width 4) and \<open>%m %d %H %M %S\<close> (width 2) do. For
  a year of four digits, which is every year a running clock reports, \<open>%Y\<close> prints the
  year as it is on every platform; a field wider than its width is printed in full.
\<close>

definition zero_pad :: "nat \<Rightarrow> nat \<Rightarrow> string" where
  "zero_pad w n = replicate (w - length (decimal n)) (CHR ''0'') @ decimal n"

definition strftime :: "datetime \<Rightarrow> string" where
  "strftime t =
     zero_pad 4 (year t) @ ''-'' @ zero_pad 2 (month t) @ ''-'' @ zero_pad 2 (day t) @ '' '' @
     zero_pad 2 (hour t) @ '':'' @ zero_pad 2 (minute t) @ '':'' @ zero_pad 2 (second t)"

text \<open>
  What the module can see of its surroundings: the module-level flag \<open>MCP_AVAILABLE\<close>
  set at import time, and the reading \<open>datetime.now()\<close> would give at this moment.
\<close>

record world =
  MCP_AVAILABLE :: bool
  clock :: datetime

definition datetime_now :: "world \<Rightarrow> datetime" where
  "datetime_now w = clock w"

subsection \<open>The response dictionary\<close>

record route =
  start_station :: string
  end_station :: string
  departure_time :: string
  arrival_time :: string
  duration :: string

record train_details =
  train_name :: string
  train_number :: string
  travel_date :: string
  route :: route

record berth =
  total :: int
  available :: int
  price :: real

record class_info =
  total_seats :: int
  available_seats :: int
  waiting_list :: int
  berth_availability :: "(string \<times> berth) list"
  status :: string
  base_fare :: real
  booking_status :: string

record additional_info =
  tatkal_available :: bool
  premium_tatkal_available :: bool
  cancellation_charges :: "(string \<times> string) list"
  booking_counter :: string
  last_updated :: string

text \<open>
  An entry of \<open>alternate_options\<close>. Its keys \<open>train_name\<close>, \<open>train_number\<close>,
  \<open>departure_time\<close> and \<open>available_seats\<close> repeat names used above and \<open>class\<close> is a
  keyword, so they carry the prefix \<open>alt_\<close>.
\<close>

record alternate_option =
  alt_train_name :: string
  alt_train_number :: string
  alt_departure_time :: string
  alt_available_seats :: int
  alt_class :: string

record snapshot =
  train_details :: train_details
  class_availability :: "(string \<times> class_info) list"
  additional_info :: additional_info
  alternate_options :: "alternate_option list"

subsection \<open>\<open>check_seat_availability\<close>\<close>

text \<open>
  The dictionary literal bound to the local variable \<open>availability_data\<close> (lines
  119 to 186), as a function of the clock reading and the five arguments.
\<close>

definition availability_data ::
  "datetime \<Rightarrow> string \<Rightarrow> string \<Rightarrow> string \<Rightarrow> string \<Rightarrow> string \<Rightarrow> snapshot" where
  "availability_data now train_name' travel_date' start_station' end_station' travel_class =
     \<lparr> train_details =
         \<lparr> train_name = train_name',
           train_number = ''12001'',
           travel_date = travel_date',
           route =
             \<lparr> start_station = start_station',
               end_station = end_station',
               departure_time = ''08:30'',
               arrival_time = ''14:45'',
               duration = ''6h 15m'' \<rparr> \<rparr>,
       class_availability =
         [(travel_class,
           \<lparr> total_seats = 72,
             available_seats = 18,
             waiting_list = 5,
             berth_availability =
               [(''upper'', \<lparr> total = 24, available = 6, price = 1250 \<rparr>),
                (''middle'', \<lparr> total = 24, available = 4, price = 1275 \<rparr>),
                (''lower'', \<lparr> total = 24, available = 8, price = 1300 \<rparr>)],
             status = (if (18::int) > 0 then ''Available'' else ''Waiting List''),
             base_fare = 1200,
             booking_status = ''OPEN'' \<rparr>)],
       additional_info =
         \<lparr> tatkal_available = True,
           premium_tatkal_available = False,
           cancellation_charges =
             [(''upto_4_hours'', ''25% of fare''),
              (''4_to_12_hours'', ''50% of fare''),
              (''after_12_hours'', ''No refund'')],
           booking_counter = ''IRCTC Online'',
           last_updated = strftime now \<rparr>,
       alternate_options =
         [\<lparr> alt_train_name = ''Shatabdi Express'',
            alt_train_number = ''12002'',
            alt_departure_time = ''10:15'',
            alt_available_seats = 32,
            alt_class = travel_class \<rparr>,
          \<lparr> alt_train_name = ''Mail Express'',
            alt_train_number = ''12003'',
            alt_departure_time = ''16:30'',
            alt_available_seats = 45,
            alt_class = travel_class \<rparr>] \<rparr>"

text \<open>
  The coroutine itself: it reads the clock, builds the dictionary and returns it. It
  assigns to no global and calls nothing that does, so the world comes back as it was.
\<close>

definition check_seat_availability ::
  "world \<Rightarrow> string \<Rightarrow> string \<Rightarrow> string \<Rightarrow> string \<Rightarrow> string \<Rightarrow> snapshot \<times> world" where
  "check_seat_availability w train_name' travel_date' start_station' end_station' travel_class =
     (availability_data (datetime_now w) train_name' travel_date' start_station' end_station'
        travel_class, w)"

subsection \<open>\<open>handle_call_tool\<close>\<close>

text \<open>
  The exceptions the handler can raise: \<open>KeyError\<close> from a subscript of the request
  dictionary, \<open>ValueError\<close> for a tool name it does not know.
\<close>

datatype error = KeyError string | ValueError string

record text_content =
  content_type :: string
  content_text :: string

text \<open>
  The handler, with \<open>json.dumps\<close> (a library function of the transport) as the parameter
  \<open>json_dumps\<close>. The request dictionary is a map from keys to strings. The keyword arguments
  of the call are evaluated in the order written, so the first missing key is the one
  reported.
\<close>

definition handle_call_tool ::
  "(snapshot \<Rightarrow> string) \<Rightarrow> world \<Rightarrow> string \<Rightarrow> (string \<rightharpoonup> string)
     \<Rightarrow> (error + text_content list) \<times> world" where
  "handle_call_tool json_dumps w name arguments =
     (if name = ''check_seat_availability'' then
        (case arguments ''train_name'' of
           None \<Rightarrow> (Inl (KeyError ''train_name''), w)
         | Some tn \<Rightarrow>
        (case arguments ''travel_date'' of
           None \<Rightarrow> (Inl (KeyError ''travel_date''), w)
         | Some td \<Rightarrow>
        (case arguments ''start_station'' of
           None \<Rightarrow> (Inl (KeyError ''start_station''), w)
         | Some ss \<Rightarrow>
        (case arguments ''end_station'' of
           None \<Rightarrow> (Inl (KeyError ''end_station''), w)
         | Some es \<Rightarrow>
        (case arguments ''travel_class'' of
           None \<Rightarrow> (Inl (KeyError ''travel_class''), w)
         | Some tc \<Rightarrow>
             (case check_seat_availability w tn td ss es tc of
                (result, w') \<Rightarrow>
                  (Inr [\<lparr> content_type = ''text'', content_text = json_dumps result \<rparr>],
                   w')))))))
      else (Inl (ValueError (''Unknown tool: '' @ name)), w))"

subsection \<open>The refund schedule of the specification, and reading the reported tiers\<close>

text \<open>
  The module has no cancellation operation; the refund schedule exists only in the
  specification (section 4.3, step 4). \<open>spec_retained_percent\<close> follows its words: the
  percentage of the fare retained as cancellation charge, by hours left to departure:
  12 hours or more, nothing (full refund); from 4 up to 12 hours, 50; under 4 hours, 75.
\<close>

definition spec_retained_percent :: "real \<Rightarrow> nat" where
  "spec_retained_percent hours_to_departure =
     (if 12 \<le> hours_to_departure then 0
      else if 4 \<le> hours_to_departure then 50
      else 75)"

text \<open>
  To compare the table the response reports with that schedule, the table is read as
  follows. Its three keys name the same three bands of hours; a value \<open>N% of fare\<close>
  under the heading \<open>cancellation_charges\<close> is a charge of \<open>N\<close> percent, and \<open>No refund\<close>
  is a charge of 100 percent.
\<close>

definition tier_key :: "real \<Rightarrow> string" where
  "tier_key hours_to_departure =
     (if hours_to_departure < 4 then ''upto_4_hours''
      else if hours_to_departure < 12 then ''4_to_12_hours''
      else ''after_12_hours'')"

definition is_digit :: "char \<Rightarrow> bool" where
  "is_digit c \<longleftrightarrow> 48 \<le> (of_char c :: nat) \<and> (of_char c :: nat) \<le> 57"

definition nat_of_digits :: "string \<Rightarrow> nat" where
  "nat_of_digits ds = foldl (\<lambda>a c. 10 * a + (of_char c - 48)) 0 ds"

definition charge_percent :: "string \<Rightarrow> nat option" where
  "charge_percent t =
     (if t = ''No refund'' then Some 100
      else if takeWhile is_digit t \<noteq> [] \<and> dropWhile is_digit t = ''% of fare''
        then Some (nat_of_digits (takeWhile is_digit t))
      else None)"

definition reported_charge_percent :: "(string \<times> string) list \<Rightarrow> real \<Rightarrow> nat option" where
  "reported_charge_percent charges hours_to_departure =
     (case map_of charges (tier_key hours_to_departure) of
        None \<Rightarrow> None
      | Some t \<Rightarrow> charge_percent t)"

subsection \<open>Comparing two responses\<close>

text \<open>The response with its \<open>last_updated\<close> stamp blanked.\<close>

definition without_last_updated :: "snapshot \<Rightarrow> snapshot" where
  "without_last_updated s =
     s\<lparr> additional_info := (additional_info s)\<lparr> last_updated := [] \<rparr> \<rparr>"

text \<open>
  The response with the stamp and the echoed train name, travel date, stations and
  class key blanked.
\<close>

definition without_echo :: "snapshot \<Rightarrow> snapshot" where
  "without_echo s =
     s\<lparr> train_details :=
          (train_details s)
            \<lparr> train_name := [],
              travel_date := [],
              route := (route (train_details s))\<lparr> start_station := [], end_station := [] \<rparr> \<rparr>,
        class_availability := map (\<lambda>kc. ([], snd kc)) (class_availability s),
        additional_info := (additional_info s)\<lparr> last_updated := [] \<rparr> \<rparr>"

text \<open>The response with the \<open>class\<close> field of every alternate option blanked.\<close>

definition without_alt_class :: "snapshot \<Rightarrow> snapshot" where
  "without_alt_class s =
     s\<lparr> alternate_options := map (\<lambda>a. a\<lparr> alt_class := [] \<rparr>) (alternate_options s) \<rparr>"

section \<open>Properties of the availability response\<close>

text \<open>
  Claim C8. For every clock reading and all five argument strings, the returned
  response repeats its arguments: the train name and travel date of \<open>train_details\<close>, the
  start and end station of its \<open>route\<close> are the arguments given, and
  \<open>class_availability\<close> has exactly one key, the \<open>travel_class\<close> argument.
\<close>

theorem check_seat_availability_echoes_arguments:
  "train_name (train_details (fst (check_seat_availability w tn td ss es tc))) = tn
   \<and> travel_date (train_details (fst (check_seat_availability w tn td ss es tc))) = td
   \<and> start_station (route (train_details (fst (check_seat_availability w tn td ss es tc)))) = ss
   \<and> end_station (route (train_details (fst (check_seat_availability w tn td ss es tc)))) = es
   \<and> map fst (class_availability (fst (check_seat_availability w tn td ss es tc))) = [tc]"
  by (simp add: check_seat_availability_def availability_data_def)

text \<open>
  Claim C10. For every input, \<open>alternate_options\<close> is a list of exactly two entries;
  the \<open>class\<close> field of each is the \<open>travel_class\<close> argument, and their
  \<open>available_seats\<close> are 32 and 45, both strictly positive.
\<close>

theorem alternate_options_two_entries:
  "length (alternate_options (fst (check_seat_availability w tn td ss es tc))) = 2
   \<and> map alt_class (alternate_options (fst (check_seat_availability w tn td ss es tc))) = [tc, tc]
   \<and> map alt_available_seats (alternate_options (fst (check_seat_availability w tn td ss es tc)))
       = [32, 45]
   \<and> list_all (\<lambda>a. 0 < alt_available_seats a)
       (alternate_options (fst (check_seat_availability w tn td ss es tc)))"
  by (simp add: check_seat_availability_def availability_data_def)

text \<open>
  Claim C4. In every response the class entry exists, and the \<open>status\<close> flag of every
  class entry is \<open>Available\<close> exactly when its \<open>available_seats\<close> is greater than 0 and
  \<open>Waiting List\<close> exactly when it is not. (The source computes the flag from the literal
  18, which is also the literal it stores as \<open>available_seats\<close>.)
\<close>

theorem status_flag_iff_available:
  "class_availability (fst (check_seat_availability w tn td ss es tc)) \<noteq> []
   \<and> list_all
       (\<lambda>kc. (status (snd kc) = ''Available'') = (0 < available_seats (snd kc))
            \<and> (status (snd kc) = ''Waiting List'') = (\<not> 0 < available_seats (snd kc))
            \<and> status (snd kc) =
                (if 0 < available_seats (snd kc) then ''Available'' else ''Waiting List''))
       (class_availability (fst (check_seat_availability w tn td ss es tc)))"
  by (simp add: check_seat_availability_def availability_data_def)

text \<open>
  Claim C5. In every response, for the class entry and for each of its berth types
  (exactly \<open>upper\<close>, \<open>middle\<close>, \<open>lower\<close>), the available count lies between 0 and the total,
  so the implied booked count, total minus available, lies between 0 and the total too.
\<close>

theorem availability_within_totals:
  "class_availability (fst (check_seat_availability w tn td ss es tc)) \<noteq> []
   \<and> list_all
       (\<lambda>kc. 0 \<le> available_seats (snd kc)
            \<and> available_seats (snd kc) \<le> total_seats (snd kc)
            \<and> 0 \<le> total_seats (snd kc) - available_seats (snd kc)
            \<and> total_seats (snd kc) - available_seats (snd kc) \<le> total_seats (snd kc)
            \<and> map fst (berth_availability (snd kc)) = [''upper'', ''middle'', ''lower'']
            \<and> list_all
                (\<lambda>kb. 0 \<le> available (snd kb)
                     \<and> available (snd kb) \<le> total (snd kb)
                     \<and> 0 \<le> total (snd kb) - available (snd kb)
                     \<and> total (snd kb) - available (snd kb) \<le> total (snd kb))
                (berth_availability (snd kc)))
       (class_availability (fst (check_seat_availability w tn td ss es tc)))"
  by (simp add: check_seat_availability_def availability_data_def)

text \<open>
  Claim C2. The availability query never ends in an error. The coroutine has no
  \<open>raise\<close> and no operation that can fail on strings, so it is a total function into
  responses; the only errors of the module are those of the handler around it. Whenever
  the request dictionary holds the five arguments, whatever strings they are, the handler
  takes neither error branch: it returns the serialised response of
  \<open>check_seat_availability\<close> on exactly those strings, and the world is as before. (The
  response always reports 18 available seats, so a response with zero availability does
  not occur and cannot fail.)
\<close>

theorem check_seat_availability_never_errors:
  assumes "arguments ''train_name'' = Some tn"
    and "arguments ''travel_date'' = Some td"
    and "arguments ''start_station'' = Some ss"
    and "arguments ''end_station'' = Some es"
    and "arguments ''travel_class'' = Some tc"
  shows "handle_call_tool json_dumps w ''check_seat_availability'' arguments =
           (Inr [\<lparr> content_type = ''text'',
                   content_text = json_dumps (fst (check_seat_availability w tn td ss es tc)) \<rparr>],
            w)"
  using assms by (simp add: handle_call_tool_def check_seat_availability_def)

text \<open>
  The request of the module's own demonstration, with a serialiser that prints the train
  name of the response.
\<close>

theorem check_seat_availability_never_errors_witness:
  "handle_call_tool (\<lambda>s. train_name (train_details s))
      \<lparr> MCP_AVAILABLE = True,
        clock = \<lparr> year = 2025, month = 7, day = 15, hour = 10, minute = 0, second = 0,
                  microsecond = 0 \<rparr> \<rparr>
      ''check_seat_availability''
      [''train_name'' \<mapsto> ''Rajdhani Express'', ''travel_date'' \<mapsto> ''2025-07-15'',
       ''start_station'' \<mapsto> ''NDLS'', ''end_station'' \<mapsto> ''BCT'', ''travel_class'' \<mapsto> ''AC2'']
   = (Inr [\<lparr> content_type = ''text'', content_text = ''Rajdhani Express'' \<rparr>],
      \<lparr> MCP_AVAILABLE = True,
        clock = \<lparr> year = 2025, month = 7, day = 15, hour = 10, minute = 0, second = 0,
                  microsecond = 0 \<rparr> \<rparr>)"
  using check_seat_availability_never_errors
    [of "[''train_name'' \<mapsto> ''Rajdhani Express'', ''travel_date'' \<mapsto> ''2025-07-15'',
          ''start_station'' \<mapsto> ''NDLS'', ''end_station'' \<mapsto> ''BCT'', ''travel_class'' \<mapsto> ''AC2'']"
        "''Rajdhani Express''" "''2025-07-15''" "''NDLS''" "''BCT''" "''AC2''"
        "\<lambda>s. train_name (train_details s)"
        "\<lparr> MCP_AVAILABLE = True,
          clock = \<lparr> year = 2025, month = 7, day = 15, hour = 10, minute = 0, second = 0,
                    microsecond = 0 \<rparr> \<rparr>"]
  by (simp add: check_seat_availability_def availability_data_def)

section \<open>Where the response departs from the specification\<close>

text \<open>
  Claim C1, as stated, fails: the specification's schedule retains 75 percent of the fare
  under 4 hours and nothing from 12 hours on, and the claim says every availability
  response reports this same schedule. The response of the module's own demonstration
  request reports a charge of 25 percent for 2 hours to departure, where the schedule
  retains 75, and 100 percent (\<open>No refund\<close>) for 24 hours to departure, where the
  schedule retains nothing.
\<close>

theorem reported_tiers_differ_from_refund_schedule:
  "reported_charge_percent
     (cancellation_charges (additional_info (fst (check_seat_availability
        \<lparr> MCP_AVAILABLE = True,
          clock = \<lparr> year = 2025, month = 7, day = 15, hour = 10, minute = 0, second = 0,
                    microsecond = 0 \<rparr> \<rparr>
        ''Rajdhani Express'' ''2025-07-15'' ''NDLS'' ''BCT'' ''AC2'')))) 2 = Some 25
   \<and> spec_retained_percent 2 = 75
   \<and> reported_charge_percent
     (cancellation_charges (additional_info (fst (check_seat_availability
        \<lparr> MCP_AVAILABLE = True,
          clock = \<lparr> year = 2025, month = 7, day = 15, hour = 10, minute = 0, second = 0,
                    microsecond = 0 \<rparr> \<rparr>
        ''Rajdhani Express'' ''2025-07-15'' ''NDLS'' ''BCT'' ''AC2'')))) 24 = Some 100
   \<and> spec_retained_percent 24 = 0"
  by (simp add: check_seat_availability_def availability_data_def reported_charge_percent_def
      tier_key_def charge_percent_def is_digit_def nat_of_digits_def spec_retained_percent_def)

text \<open>
  Claim C1, amended. Every availability response reports the same fixed table of
  cancellation charges: \<open>upto_4_hours\<close> is \<open>25% of fare\<close>, \<open>4_to_12_hours\<close> is
  \<open>50% of fare\<close>, \<open>after_12_hours\<close> is \<open>No refund\<close>. Read as the share of the fare
  retained by hours to departure this is 25 under 4 hours, 50 from 4 up to 12 hours and
  100 from 12 hours on; it agrees with the refund schedule of the specification (75, 50,
  0) in the band from 4 up to 12 hours and nowhere else.
\<close>

theorem reported_cancellation_charges:
  "cancellation_charges (additional_info (fst (check_seat_availability w tn td ss es tc))) =
     [(''upto_4_hours'', ''25% of fare''), (''4_to_12_hours'', ''50% of fare''),
      (''after_12_hours'', ''No refund'')]
   \<and> reported_charge_percent
       (cancellation_charges (additional_info (fst (check_seat_availability w tn td ss es tc)))) h
       = Some (if h < 4 then 25 else if h < 12 then 50 else 100)
   \<and> (reported_charge_percent
         (cancellation_charges (additional_info (fst (check_seat_availability w tn td ss es tc)))) h
         = Some (spec_retained_percent h)) = (4 \<le> h \<and> h < 12)"
  by (simp add: check_seat_availability_def availability_data_def reported_charge_percent_def
      tier_key_def charge_percent_def is_digit_def nat_of_digits_def spec_retained_percent_def)

text \<open>
  Claim C3, as stated, fails: two calls with the same five arguments, made one second
  apart, return different responses, because \<open>last_updated\<close> is the formatted reading
  of the clock at the time of the call.
\<close>

theorem same_arguments_different_results:
  "fst (check_seat_availability
          \<lparr> MCP_AVAILABLE = True,
            clock = \<lparr> year = 2025, month = 7, day = 15, hour = 10, minute = 0, second = 0,
                      microsecond = 0 \<rparr> \<rparr>
          ''Rajdhani Express'' ''2025-07-15'' ''NDLS'' ''BCT'' ''AC2'')
   \<noteq> fst (check_seat_availability
          \<lparr> MCP_AVAILABLE = True,
            clock = \<lparr> year = 2025, month = 7, day = 15, hour = 10, minute = 0, second = 1,
                      microsecond = 0 \<rparr> \<rparr>
          ''Rajdhani Express'' ''2025-07-15'' ''NDLS'' ''BCT'' ''AC2'')"
  by code_simp

text \<open>
  Claim C3, amended. A call to \<open>check_seat_availability\<close> leaves the world as it found
  it; the \<open>last_updated\<close> field of its response is the clock reading formatted to the
  second; two calls with the same arguments return responses that are identical apart
  from \<open>last_updated\<close>, and identical altogether whenever the two clock readings
  format to the same text.
\<close>

theorem check_seat_availability_same_up_to_clock:
  "snd (check_seat_availability w1 tn td ss es tc) = w1
   \<and> last_updated (additional_info (fst (check_seat_availability w1 tn td ss es tc)))
       = strftime (clock w1)
   \<and> without_last_updated (fst (check_seat_availability w1 tn td ss es tc))
       = without_last_updated (fst (check_seat_availability w2 tn td ss es tc))
   \<and> (strftime (clock w1) = strftime (clock w2) \<longrightarrow>
        fst (check_seat_availability w1 tn td ss es tc)
        = fst (check_seat_availability w2 tn td ss es tc))"
  by (simp add: check_seat_availability_def availability_data_def datetime_now_def
      without_last_updated_def)

text \<open>
  Two readings of the clock within the same second, with the demonstration request.
\<close>

theorem check_seat_availability_same_up_to_clock_witness:
  "strftime \<lparr> year = 2025, month = 7, day = 15, hour = 10, minute = 0, second = 0,
              microsecond = 0 \<rparr>
   = strftime \<lparr> year = 2025, month = 7, day = 15, hour = 10, minute = 0, second = 0,
                microsecond = 999999 \<rparr>
   \<and> fst (check_seat_availability
          \<lparr> MCP_AVAILABLE = True,
            clock = \<lparr> year = 2025, month = 7, day = 15, hour = 10, minute = 0, second = 0,
                      microsecond = 0 \<rparr> \<rparr>
          ''Rajdhani Express'' ''2025-07-15'' ''NDLS'' ''BCT'' ''AC2'')
     = fst (check_seat_availability
          \<lparr> MCP_AVAILABLE = True,
            clock = \<lparr> year = 2025, month = 7, day = 15, hour = 10, minute = 0, second = 0,
                      microsecond = 999999 \<rparr> \<rparr>
          ''Rajdhani Express'' ''2025-07-15'' ''NDLS'' ''BCT'' ''AC2'')"
proof -
  have same: "strftime \<lparr> year = 2025, month = 7, day = 15, hour = 10, minute = 0, second = 0,
              microsecond = 0 \<rparr>
   = strftime \<lparr> year = 2025, month = 7, day = 15, hour = 10, minute = 0, second = 0,
                microsecond = 999999 \<rparr>"
    by (simp add: strftime_def)
  from same check_seat_availability_same_up_to_clock
    [where ?w1.0 = "\<lparr> MCP_AVAILABLE = True,
            clock = \<lparr> year = 2025, month = 7, day = 15, hour = 10, minute = 0, second = 0,
                      microsecond = 0 \<rparr> \<rparr>"
       and ?w2.0 = "\<lparr> MCP_AVAILABLE = True,
            clock = \<lparr> year = 2025, month = 7, day = 15, hour = 10, minute = 0, second = 0,
                      microsecond = 999999 \<rparr> \<rparr>"
       and tn = "''Rajdhani Express''" and td = "''2025-07-15''" and ss = "''NDLS''"
       and es = "''BCT''" and tc = "''AC2''"]
  show ?thesis by simp
qed

text \<open>
  Claim C9, as stated, fails: with the stamp and the echoed train name, travel date,
  stations and class key blanked, the responses for class \<open>AC1\<close> and for class \<open>AC2\<close>
  still differ, because each alternate option carries the \<open>travel_class\<close> argument in
  its \<open>class\<close> field; \<open>alternate_options\<close> is not independent of the input.
\<close>

theorem alternate_options_depend_on_class:
  "without_echo (fst (check_seat_availability
          \<lparr> MCP_AVAILABLE = True,
            clock = \<lparr> year = 2025, month = 7, day = 15, hour = 10, minute = 0, second = 0,
                      microsecond = 0 \<rparr> \<rparr>
          ''Rajdhani Express'' ''2025-07-15'' ''NDLS'' ''BCT'' ''AC1''))
   \<noteq> without_echo (fst (check_seat_availability
          \<lparr> MCP_AVAILABLE = True,
            clock = \<lparr> year = 2025, month = 7, day = 15, hour = 10, minute = 0, second = 0,
                      microsecond = 0 \<rparr> \<rparr>
          ''Rajdhani Express'' ''2025-07-15'' ''NDLS'' ''BCT'' ''AC2''))"
  by (simp add: check_seat_availability_def availability_data_def without_echo_def)

text \<open>
  Claim C9, amended. Any two responses differ at most in the echoed fields (train name,
  travel date, start and end station, the class key, and the \<open>class\<close> field of each
  alternate option) and in \<open>last_updated\<close>. With those blanked every response is the
  one constant below: seat counts 72, 18 and 5, berths of 24 with 6, 4 and 8 available,
  prices 1250, 1275 and 1300 over a base fare of 1200, train number, departure and
  arrival times, quota flags, cancellation charges, and the names, numbers, departure
  times and seat counts of the two alternate options.
\<close>

theorem response_constant_apart_from_echo:
  "without_alt_class (without_echo (fst (check_seat_availability w1 tn1 td1 ss1 es1 tc1)))
   = without_alt_class (without_echo (fst (check_seat_availability w2 tn2 td2 ss2 es2 tc2)))
   \<and> without_alt_class (without_echo (fst (check_seat_availability w1 tn1 td1 ss1 es1 tc1)))
   = \<lparr> train_details =
         \<lparr> train_name = [],
           train_number = ''12001'',
           travel_date = [],
           route =
             \<lparr> start_station = [],
               end_station = [],
               departure_time = ''08:30'',
               arrival_time = ''14:45'',
               duration = ''6h 15m'' \<rparr> \<rparr>,
       class_availability =
         [([],
           \<lparr> total_seats = 72,
             available_seats = 18,
             waiting_list = 5,
             berth_availability =
               [(''upper'', \<lparr> total = 24, available = 6, price = 1250 \<rparr>),
                (''middle'', \<lparr> total = 24, available = 4, price = 1275 \<rparr>),
                (''lower'', \<lparr> total = 24, available = 8, price = 1300 \<rparr>)],
             status = ''Available'',
             base_fare = 1200,
             booking_status = ''OPEN'' \<rparr>)],
       additional_info =
         \<lparr> tatkal_available = True,
           premium_tatkal_available = False,
           cancellation_charges =
             [(''upto_4_hours'', ''25% of fare''),
              (''4_to_12_hours'', ''50% of fare''),
              (''after_12_hours'', ''No refund'')],
           booking_counter = ''IRCTC Online'',
           last_updated = [] \<rparr>,
       alternate_options =
         [\<lparr> alt_train_name = ''Shatabdi Express'',
            alt_train_number = ''12002'',
            alt_departure_time = ''10:15'',
            alt_available_seats = 32,
            alt_class = [] \<rparr>,
          \<lparr> alt_train_name = ''Mail Express'',
            alt_train_number = ''12003'',
            alt_departure_time = ''16:30'',
            alt_available_seats = 45,
            alt_class = [] \<rparr>] \<rparr>"
  by (simp add: check_seat_availability_def availability_data_def without_echo_def
      without_alt_class_def)

end
